theory Spec2Isabelle
  imports Main "HOL-Library.AList"
begin

section \<open>JavaScript values and strings\<close>

text \<open>
  The plugin (\<^verbatim>\<open>src/src/plugin.ts\<close>) is a closure over three variables
  (\<^verbatim>\<open>referencePackageJson\<close>, \<^verbatim>\<open>nodeJsFiles\<close>, \<^verbatim>\<open>outDir\<close>) and over
  \<^verbatim>\<open>pluginOptions\<close>, the user's options merged over the defaults; its hooks are
  modelled as functions that take these explicitly.
  Strings are lists of characters, a \<^verbatim>\<open>Record<string, string>\<close> is an association list
  in insertion order, a thrown \<^verbatim>\<open>Error\<close> or a rejected promise is the \<open>Inl\<close> branch of
  a sum.
\<close>

text \<open>
  Configuration objects handed to Vite are trees of JavaScript values. An array carries
  its elements and, since it is an object, further named properties; an object carries a
  flag telling whether it is a plain object (\<^verbatim>\<open>isPlainObject\<close>) and its own enumerable
  properties. Functions are opaque and told apart by a number.
\<close>

datatype jv =
    JUndefined
  | JNull
  | JBool bool
  | JNum int
  | JStr string
  | JFun nat
  | JArr "jv list" "(string \<times> jv) list"
  | JObj bool "(string \<times> jv) list"

text \<open>\<^verbatim>\<open>String.prototype.startsWith\<close> and \<^verbatim>\<open>endsWith\<close> (one argument).\<close>

fun startsWith :: "string \<Rightarrow> string \<Rightarrow> bool" where
  "startsWith s [] = True"
| "startsWith [] (p # ps) = False"
| "startsWith (c # cs) (p # ps) = (c = p \<and> startsWith cs ps)"

definition endsWith :: "string \<Rightarrow> string \<Rightarrow> bool" where
  "endsWith s p = startsWith (rev s) (rev p)"

text \<open>
  \<^verbatim>\<open>s.replace(pat, rep)\<close> with a string pattern replaces the first occurrence only.
  (The replacement text used by the plugin, \<^verbatim>\<open>".js"\<close>, has no \<^verbatim>\<open>$\<close>, so no
  substitution pattern is expanded.)
\<close>

fun replace_first :: "string \<Rightarrow> string \<Rightarrow> string \<Rightarrow> string" where
  "replace_first pat rep [] = (if pat = [] then rep else [])"
| "replace_first pat rep (c # cs) =
     (if startsWith (c # cs) pat then rep @ drop (length pat) (c # cs)
      else c # replace_first pat rep cs)"

text \<open>\<^verbatim>\<open>String.prototype.includes\<close>: \<open>p\<close> occurs in \<open>s\<close>.\<close>

fun str_includes :: "string \<Rightarrow> string \<Rightarrow> bool" where
  "str_includes [] p = (p = [])"
| "str_includes (c # cs) p = (startsWith (c # cs) p \<or> str_includes cs p)"

text \<open>
  Assignment \<^verbatim>\<open>obj[key] = value\<close> of a string to a property of an object literal: an
  existing key keeps its place, a new key is appended. The key \<^verbatim>\<open>__proto__\<close> is the
  accessor of \<^verbatim>\<open>Object.prototype\<close>, whose setter ignores a string, so no own property
  appears.
\<close>

definition record_set :: "string \<Rightarrow> string \<Rightarrow> (string \<times> string) list \<Rightarrow> (string \<times> string) list" where
  "record_set k v obj = (if k = ''__proto__'' then obj else AList.update k v obj)"

section \<open>Options and plugin state\<close>

record SimplePackageJson =
  name :: string
  version :: string
  dependencies :: "(string \<times> string) list option"
  devDependencies :: "(string \<times> string) list option"
  node_red_nodes :: "(string \<times> string) list"

record packageJson_options =
  path :: string
  copyPackageName :: bool
  copyDependencies :: bool

text \<open>
  \<^verbatim>\<open>packageJson\<close> is \<open>None\<close> for \<^verbatim>\<open>false\<close>; \<^verbatim>\<open>buildNodeJsFiles\<close> is a boolean
  (\<open>JBool\<close>) or a partial Vite configuration.
\<close>

record VitePluginNodeRedOptions =
  nodesDirectory :: string
  packageName :: string
  packageJson :: "packageJson_options option"
  buildNodeJsFiles :: jv
  silent :: bool

definition defaultOptions :: VitePluginNodeRedOptions where
  "defaultOptions =
     \<lparr> nodesDirectory = ''nodes'',
       packageName = '''',
       packageJson = Some \<lparr> path = ''package.json'', copyPackageName = True, copyDependencies = True \<rparr>,
       buildNodeJsFiles = JBool True,
       silent = False \<rparr>"

record plugin_state =
  nodeJsFiles :: "string list"
  outDir :: "string option"

datatype error =
    ServeUnsupported
  | StatRejected string
  | ReaddirRejected string
  | ReadFileRejected string
  | NotADirectory string
  | NoSubdirectories string
  | AssetsDirConflict
  | NoPackageName

section \<open>The runtime: \<^verbatim>\<open>node:path\<close>, \<^verbatim>\<open>fs\<close> and \<^verbatim>\<open>process\<close>\<close>

text \<open>
  The file system and the platform's path arithmetic are supplied by Node.js. They are
  parameters of the model: \<open>fs_stat p\<close> is \<open>None\<close> when \<^verbatim>\<open>fs.stat\<close> rejects (the path
  does not exist) and otherwise tells \<^verbatim>\<open>stats.isDirectory()\<close>; \<open>fs_readdir p\<close> is \<open>None\<close>
  when \<^verbatim>\<open>fs.readdir\<close> rejects and otherwise lists the entries with their kind;
  \<open>read_json p\<close> is \<open>None\<close> when reading or parsing the file at \<open>p\<close> throws.
\<close>

datatype dirent_kind = File | Directory | Other

record node_env =
  cwd :: string
  path_isAbsolute :: "string \<Rightarrow> bool"
  path_resolve :: "string list \<Rightarrow> string"
  path_normalize :: "string \<Rightarrow> string"
  path_join :: "string list \<Rightarrow> string"
  path_dirname :: "string \<Rightarrow> string"
  fs_stat :: "string \<Rightarrow> bool option"
  fs_readdir :: "string \<Rightarrow> (string \<times> dirent_kind) list option"
  read_json :: "string \<Rightarrow> SimplePackageJson option"

section \<open>The asset path rewriter: \<^verbatim>\<open>transformIndexHtml\<close>\<close>

text \<open>
  The regular expression is \<^verbatim>\<open>(src|href)="\/resources\/\<close> with the flag \<^verbatim>\<open>g\<close>.
  \<open>re_exec s\<close> tries it at the start of \<open>s\<close> and returns the first capture group and
  the matched text.
\<close>

definition re_exec :: "string \<Rightarrow> (string \<times> string) option" where
  \<open>re_exec s =
     (if startsWith s ''src="/resources/'' then Some (''src'', ''src="/resources/'')
      else if startsWith s ''href="/resources/'' then Some (''href'', ''href="/resources/'')
      else None)\<close>

text \<open>
  The replacement text is a template: \<^verbatim>\<open>$$\<close> is a dollar sign, \<^verbatim>\<open>$&\<close> the match,
  \<^verbatim>\<open>$`\<close> the text before the match, \<^verbatim>\<open>$'\<close> the text after it, and \<^verbatim>\<open>$1\<close>
  (also written \<^verbatim>\<open>$01\<close>) the only capture group; any other \<^verbatim>\<open>$\<close> stands for itself.
  The package name is spliced into the template, so its own dollar signs are read this
  way too.
\<close>

fun getSubstitution :: "string \<Rightarrow> string \<Rightarrow> string \<Rightarrow> string \<Rightarrow> string \<Rightarrow> string" where
  "getSubstitution m pre post g [] = []"
| "getSubstitution m pre post g [c] = [c]"
| "getSubstitution m pre post g (c # d # r) =
     (if c \<noteq> CHR ''$'' then c # getSubstitution m pre post g (d # r)
      else if d = CHR ''$'' then CHR ''$'' # getSubstitution m pre post g r
      else if d = CHR ''&'' then m @ getSubstitution m pre post g r
      else if d = CHR 0x60 then pre @ getSubstitution m pre post g r
      else if d = CHR 0x27 then post @ getSubstitution m pre post g r
      else if d = CHR ''1'' then g @ getSubstitution m pre post g r
      else (case r of
              e # r' \<Rightarrow>
                if d = CHR ''0'' \<and> e = CHR ''1'' then g @ getSubstitution m pre post g r'
                else c # getSubstitution m pre post g (d # r)
            | [] \<Rightarrow> c # getSubstitution m pre post g (d # r)))"

lemma startsWith_iff: "startsWith s p \<longleftrightarrow> (\<exists>r. s = p @ r)"
  by (induction s p rule: startsWith.induct) auto

lemma startsWith_length: "startsWith s p \<Longrightarrow> length p \<le> length s"
  by (auto simp: startsWith_iff)

lemma re_exec_length:
  "re_exec s = Some (g, m) \<Longrightarrow> 0 < length m \<and> length m \<le> length s"
  by (auto simp: re_exec_def split: if_splits dest!: startsWith_length)

text \<open>
  \<^verbatim>\<open>html.replace(re, template)\<close> with a global expression: the matches are found from
  left to right, each search starting where the previous match ended, and each is
  replaced by the expanded template. \<open>pre\<close> is the input already passed.
\<close>

function regex_replace :: "string \<Rightarrow> string \<Rightarrow> string \<Rightarrow> string" where
  "regex_replace tmpl pre [] = []"
| "regex_replace tmpl pre (c # cs) =
     (case re_exec (c # cs) of
        Some (g, m) \<Rightarrow>
          getSubstitution m pre (drop (length m) (c # cs)) g tmpl
            @ regex_replace tmpl (pre @ m) (drop (length m) (c # cs))
      | None \<Rightarrow> c # regex_replace tmpl (pre @ [c]) cs)"
  by pat_completeness auto
termination
  by (relation "measure (\<lambda>(tmpl, pre, s). length s)") (auto dest: re_exec_length)

definition transformIndexHtml ::
  "VitePluginNodeRedOptions \<Rightarrow> SimplePackageJson option \<Rightarrow> string \<Rightarrow> string" where
  \<open>transformIndexHtml pluginOptions referencePackageJson html =
     (let pkgName = (case referencePackageJson of
                       Some ref \<Rightarrow> name ref
                     | None \<Rightarrow> packageName pluginOptions)
      in regex_replace (''$1="/resources/'' @ pkgName @ ''/'') [] html)\<close>

section \<open>The \<^verbatim>\<open>config\<close> hook: scanning the nodes directory\<close>

datatype command = Build | Serve

text \<open>Of the host configuration the hook reads \<^verbatim>\<open>config.build?.assetsDir\<close> only.\<close>

record UserConfig =
  build_assetsDir :: "string option"

text \<open>What the hook returns to Vite: \<^verbatim>\<open>{build: {assetsDir, rollupOptions: {input}}}\<close>.\<close>

record config_result =
  assetsDir :: string
  rollupOptions_input :: "(string \<times> string) list"

text \<open>The two \<^verbatim>\<open>console.warn\<close> messages.\<close>

datatype diagnostic =
    MissingFile string
  | FoundNodes nat string "(string \<times> string) list"

text \<open>
  The loop over \<^verbatim>\<open>subdirs\<close>. \<open>nodes\<close> and \<open>jsFiles\<close> are the object and the array the
  loop fills, \<open>log\<close> the warnings printed so far.
\<close>

fun scan_subdirs ::
  "node_env \<Rightarrow> bool \<Rightarrow> string \<Rightarrow> string list \<Rightarrow> (string \<times> string) list \<Rightarrow> string list
     \<Rightarrow> diagnostic list \<Rightarrow> error + ((string \<times> string) list \<times> string list \<times> diagnostic list)" where
  "scan_subdirs env quiet nodesDir [] nodes jsFiles log = Inr (nodes, jsFiles, log)"
| "scan_subdirs env quiet nodesDir (subdir # rest) nodes jsFiles log =
     (case fs_readdir env (path_join env [nodesDir, subdir]) of
        None \<Rightarrow> Inl (ReaddirRejected (path_join env [nodesDir, subdir]))
      | Some contents \<Rightarrow>
          (let files = set (map fst (filter (\<lambda>dirent. snd dirent = File) contents));
               log' = (if (subdir @ ''.html'' \<notin> files
                           \<or> (subdir @ ''.ts'' \<notin> files \<and> subdir @ ''.js'' \<notin> files))
                          \<and> \<not> quiet
                       then log @ [MissingFile subdir] else log)
           in scan_subdirs env quiet nodesDir rest
                (record_set subdir (path_join env [nodesDir, subdir, subdir @ ''.html'']) nodes)
                (jsFiles @ [if subdir @ ''.ts'' \<in> files
                            then path_join env [nodesDir, subdir, subdir @ ''.ts'']
                            else path_join env [nodesDir, subdir, subdir @ ''.js'']])
                log'))"

text \<open>The normalised nodes directory, absolute or resolved against the working directory.\<close>

definition resolve_nodesDir :: "VitePluginNodeRedOptions \<Rightarrow> node_env \<Rightarrow> string" where
  "resolve_nodesDir pluginOptions env =
     path_normalize env
       (if path_isAbsolute env (nodesDirectory pluginOptions)
        then nodesDirectory pluginOptions
        else path_resolve env [cwd env, nodesDirectory pluginOptions])"

definition config ::
  "VitePluginNodeRedOptions \<Rightarrow> node_env \<Rightarrow> UserConfig \<Rightarrow> command \<Rightarrow> plugin_state
     \<Rightarrow> error + (config_result option \<times> diagnostic list \<times> plugin_state)" where
  "config pluginOptions env cfg cmd st =
     (if cmd = Serve then Inl ServeUnsupported
      else if nodesDirectory pluginOptions = [] then Inr (None, [], st)
      else
        (let nodesDir = resolve_nodesDir pluginOptions env
         in case fs_stat env nodesDir of
              None \<Rightarrow> Inl (StatRejected nodesDir)
            | Some isDirectory \<Rightarrow>
                if \<not> isDirectory then Inl (NotADirectory nodesDir)
                else
                  (case fs_readdir env nodesDir of
                     None \<Rightarrow> Inl (ReaddirRejected nodesDir)
                   | Some contents \<Rightarrow>
                       (let subdirs = map fst (filter (\<lambda>dirent. snd dirent = Directory) contents)
                        in if length subdirs = 0 then Inl (NoSubdirectories nodesDir)
                           else
                             (case scan_subdirs env (silent pluginOptions) nodesDir subdirs []
                                     (nodeJsFiles st) [] of
                                Inl e \<Rightarrow> Inl e
                              | Inr (nodes, jsFiles, log) \<Rightarrow>
                                  if \<not> silent pluginOptions
                                  then
                                    (if (case build_assetsDir cfg of
                                           Some a \<Rightarrow> a \<noteq> [] \<and> a \<noteq> ''resources''
                                         | None \<Rightarrow> False)
                                     then Inl AssetsDirConflict
                                     else Inr (Some \<lparr> assetsDir = ''resources'',
                                                      rollupOptions_input = nodes \<rparr>,
                                               log @ [FoundNodes (length subdirs) nodesDir nodes],
                                               st\<lparr>nodeJsFiles := jsFiles\<rparr>))
                                  else Inr (Some \<lparr> assetsDir = ''resources'',
                                                   rollupOptions_input = nodes \<rparr>,
                                            log, st\<lparr>nodeJsFiles := jsFiles\<rparr>))))))"

section \<open>Loading the reference \<^verbatim>\<open>package.json\<close>\<close>

text \<open>
  The body of \<^verbatim>\<open>nodeRedPlugin\<close> before the hooks: \<^verbatim>\<open>referencePackageJson\<close> stays
  undefined (\<open>None\<close>) when \<^verbatim>\<open>packageJson\<close> is \<^verbatim>\<open>false\<close> or its \<^verbatim>\<open>path\<close> is empty.
\<close>

definition load_reference ::
  "VitePluginNodeRedOptions \<Rightarrow> node_env \<Rightarrow> error + SimplePackageJson option" where
  "load_reference pluginOptions env =
     (case packageJson pluginOptions of
        None \<Rightarrow> Inr None
      | Some pj \<Rightarrow>
          if path pj = [] then Inr None
          else
            (let packageJsonPath =
                   (if path_isAbsolute env (path pj) then path pj
                    else path_resolve env [cwd env, path pj])
             in case read_json env packageJsonPath of
                  None \<Rightarrow> Inl (ReadFileRejected packageJsonPath)
                | Some ref \<Rightarrow> Inr (Some ref)))"

section \<open>The manifest emitter: \<^verbatim>\<open>writeBundle\<close>\<close>

text \<open>
  \<^verbatim>\<open>path.parse(p).name\<close> as \<^verbatim>\<open>path.posix\<close> computes it: the last component of the
  path (trailing slashes dropped) up to its last dot; a component whose only dot is its
  first character, and the component \<^verbatim>\<open>..\<close>, are taken whole.
\<close>

definition path_parse_name :: "string \<Rightarrow> string" where
  "path_parse_name p =
     (let trimmed = rev (dropWhile (\<lambda>c. c = CHR ''/'') (rev p));
          base = rev (takeWhile (\<lambda>c. c \<noteq> CHR ''/'') (rev trimmed));
          ext = rev (takeWhile (\<lambda>c. c \<noteq> CHR ''.'') (rev base))
      in if CHR ''.'' \<notin> set base then base
         else if length ext + 1 = length base then base
         else if base = ''..'' then base
         else take (length base - length ext - 1) base)"

datatype output_type = Asset | Chunk

record output_file =
  output_type :: output_type
  fileName :: string

record output_options =
  options_dir :: "string option"
  options_file :: "string option"

text \<open>The loop over \<^verbatim>\<open>Object.entries(bundle)\<close>; \<open>nodes\<close> is \<^verbatim>\<open>pkg["node-red"].nodes\<close>.\<close>

fun add_nodes :: "(string \<times> output_file) list \<Rightarrow> (string \<times> string) list \<Rightarrow> (string \<times> string) list" where
  "add_nodes [] nodes = nodes"
| "add_nodes ((key, assetInfo) # rest) nodes =
     add_nodes rest
       (if output_type assetInfo = Asset \<and> endsWith (fileName assetInfo) ''.html''
        then record_set (path_parse_name (fileName assetInfo))
               (replace_first ''.html'' ''.js'' (fileName assetInfo)) nodes
        else nodes)"

text \<open>
  The result is the call \<^verbatim>\<open>fs.writeFile(outPackagePath, JSON.stringify(pkg))\<close> the hook
  makes, as the pair of its path and the manifest, with the state holding \<^verbatim>\<open>outDir\<close>;
  \<open>None\<close> when the hook returns at once. Whether the write succeeds is the file system's
  matter: a failure goes to the host's \<^verbatim>\<open>this.error\<close>.
\<close>

definition writeBundle ::
  "VitePluginNodeRedOptions \<Rightarrow> SimplePackageJson option \<Rightarrow> node_env \<Rightarrow> output_options
     \<Rightarrow> (string \<times> output_file) list \<Rightarrow> plugin_state
     \<Rightarrow> error + ((string \<times> SimplePackageJson) option \<times> plugin_state)" where
  "writeBundle pluginOptions referencePackageJson env outputOptions bundle st =
     (case packageJson pluginOptions of
        None \<Rightarrow> Inr (None, st)
      | Some pj \<Rightarrow>
          (let pkg = \<lparr> name = packageName pluginOptions, version = ''1.0.0'',
                       dependencies = None, devDependencies = None, node_red_nodes = [] \<rparr>;
               copied =
                 (case referencePackageJson of
                    None \<Rightarrow> Inr pkg
                  | Some ref \<Rightarrow>
                      (case (if copyPackageName pj then Inr (pkg\<lparr>name := name ref\<rparr>)
                             else if packageName pluginOptions = [] then Inl NoPackageName
                             else Inr pkg) of
                         Inl e \<Rightarrow> Inl e
                       | Inr pkg1 \<Rightarrow>
                           Inr (if copyDependencies pj
                                then pkg1\<lparr>dependencies :=
                                            Some (case dependencies ref of Some d \<Rightarrow> d | None \<Rightarrow> []),
                                          devDependencies :=
                                            Some (case devDependencies ref of Some d \<Rightarrow> d | None \<Rightarrow> [])\<rparr>
                                else pkg1)))
           in case copied of
                Inl e \<Rightarrow> Inl e
              | Inr pkg2 \<Rightarrow>
                  (let pkg3 = pkg2\<lparr>node_red_nodes := add_nodes bundle (node_red_nodes pkg2)\<rparr>;
                       fallback = (case options_file outputOptions of
                                     Some f \<Rightarrow> if f \<noteq> [] then path_dirname env f else ''dist''
                                   | None \<Rightarrow> ''dist'');
                       d = (case options_dir outputOptions of
                              Some x \<Rightarrow> if x \<noteq> [] then x else fallback
                            | None \<Rightarrow> fallback)
                   in Inr (Some (path_resolve env [cwd env, d, ''package.json''], pkg3),
                           st\<lparr>outDir := Some d\<rparr>))))"

section \<open>Deep merge: \<^verbatim>\<open>lodash.merge\<close>\<close>

text \<open>
  The plugin merges configuration objects with \<^verbatim>\<open>merge\<close> of lodash, a dependency.
  The model follows lodash 4.17.21 (\<^verbatim>\<open>baseMerge\<close>, \<^verbatim>\<open>baseMergeDeep\<close>,
  \<^verbatim>\<open>assignMergeValue\<close>) on trees of values: the properties of the source are visited in
  order; a source value that is an array or a plain object is merged recursively into
  the destination's value (into a fresh array or object when that is not of the matching
  kind); any other source value is assigned, except that \<^verbatim>\<open>undefined\<close> never overwrites
  an existing property.

  Outside the model: sharing between the two trees, inherited properties, \<^verbatim>\<open>arguments\<close>
  objects, buffers and typed arrays, the keys \<^verbatim>\<open>__proto__\<close> and \<^verbatim>\<open>constructor\<close>, and an
  array-like object whose \<^verbatim>\<open>length\<close> exceeds what an array can have. A named property
  assigned to an array is kept beside its elements; the names in the sources the plugin
  passes are identifiers, never an index or \<^verbatim>\<open>length\<close>.
\<close>

text \<open>A property key: an array index or a name. \<open>dec\<close> writes an index as a name.\<close>

datatype pkey = Idx nat | Key string

fun dec :: "nat \<Rightarrow> string" where
  "dec n = (if n < 10 then [''0123456789'' ! n] else dec (n div 10) @ [''0123456789'' ! (n mod 10)])"

declare dec.simps [simp del]

definition lookup :: "(string \<times> jv) list \<Rightarrow> string \<Rightarrow> jv" where
  "lookup ps k = (case map_of ps k of Some v \<Rightarrow> v | None \<Rightarrow> JUndefined)"

fun get_prop :: "jv \<Rightarrow> pkey \<Rightarrow> jv" where
  "get_prop (JArr es ps) (Idx i) = (if i < length es then es ! i else JUndefined)"
| "get_prop (JArr es ps) (Key k) = lookup ps k"
| "get_prop (JObj plain ps) (Idx i) = lookup ps (dec i)"
| "get_prop (JObj plain ps) (Key k) = lookup ps k"
| "get_prop v key = JUndefined"

fun has_prop :: "jv \<Rightarrow> pkey \<Rightarrow> bool" where
  "has_prop (JArr es ps) (Idx i) = (i < length es)"
| "has_prop (JArr es ps) (Key k) = (map_of ps k \<noteq> None)"
| "has_prop (JObj plain ps) (Idx i) = (map_of ps (dec i) \<noteq> None)"
| "has_prop (JObj plain ps) (Key k) = (map_of ps k \<noteq> None)"
| "has_prop v key = False"

fun set_prop :: "jv \<Rightarrow> pkey \<Rightarrow> jv \<Rightarrow> jv" where
  "set_prop (JArr es ps) (Idx i) v =
     JArr (if i < length es then es[i := v]
           else es @ replicate (i - length es) JUndefined @ [v]) ps"
| "set_prop (JArr es ps) (Key k) v = JArr es (AList.update k v ps)"
| "set_prop (JObj plain ps) (Idx i) v = JObj plain (AList.update (dec i) v ps)"
| "set_prop (JObj plain ps) (Key k) v = JObj plain (AList.update k v ps)"
| "set_prop object key v = object"

text \<open>
  \<^verbatim>\<open>isObject\<close> (an object or a function), \<^verbatim>\<open>isArray\<close>, \<^verbatim>\<open>isFunction\<close>, and
  \<^verbatim>\<open>isArrayLikeObject\<close>: an array, or an object whose \<^verbatim>\<open>length\<close> is an integer from 0
  to \<^verbatim>\<open>Number.MAX_SAFE_INTEGER\<close>, which \<^verbatim>\<open>copyArray\<close> turns into an array.
\<close>

fun isObject :: "jv \<Rightarrow> bool" where
  "isObject (JFun f) = True"
| "isObject (JArr es ps) = True"
| "isObject (JObj plain ps) = True"
| "isObject v = False"

fun isArray :: "jv \<Rightarrow> bool" where
  "isArray (JArr es ps) = True"
| "isArray v = False"

fun isFunction :: "jv \<Rightarrow> bool" where
  "isFunction (JFun f) = True"
| "isFunction v = False"

fun isArrayLikeObject :: "jv \<Rightarrow> bool" where
  "isArrayLikeObject (JArr es ps) = True"
| "isArrayLikeObject (JObj plain ps) =
     (case lookup ps ''length'' of JNum n \<Rightarrow> 0 \<le> n \<and> n \<le> 9007199254740991 | _ \<Rightarrow> False)"
| "isArrayLikeObject v = False"

fun copyArray :: "jv \<Rightarrow> jv" where
  "copyArray (JArr es ps) = JArr es []"
| "copyArray (JObj plain ps) =
     (case lookup ps ''length'' of
        JNum n \<Rightarrow> JArr (map (\<lambda>i. lookup ps (dec i)) [0 ..< nat n]) []
      | _ \<Rightarrow> JArr [] [])"
| "copyArray v = JArr [] []"

definition assignMergeValue :: "jv \<Rightarrow> pkey \<Rightarrow> jv \<Rightarrow> jv" where
  "assignMergeValue object key v =
     (if (v \<noteq> JUndefined \<and> get_prop object key \<noteq> v) \<or> (v = JUndefined \<and> \<not> has_prop object key)
      then set_prop object key v else object)"

text \<open>
  \<open>baseMerge object source\<close> returns the destination after the merge;
  \<open>baseMerge_elems\<close> and \<open>baseMerge_props\<close> are its loop (\<^verbatim>\<open>baseFor\<close>) over the indices
  and over the named properties of the source, \<open>baseMerge_key\<close> is the loop's body.
\<close>

function baseMerge :: "jv \<Rightarrow> jv \<Rightarrow> jv"
  and baseMerge_elems :: "jv \<Rightarrow> nat \<Rightarrow> jv list \<Rightarrow> jv"
  and baseMerge_props :: "jv \<Rightarrow> (string \<times> jv) list \<Rightarrow> jv"
  and baseMerge_key :: "jv \<Rightarrow> pkey \<Rightarrow> jv \<Rightarrow> jv"
  and baseMergeDeep :: "jv \<Rightarrow> pkey \<Rightarrow> jv \<Rightarrow> jv"
where
  "baseMerge object source =
     (case source of
        JArr es ps \<Rightarrow> baseMerge_props (baseMerge_elems object 0 es) ps
      | JObj plain ps \<Rightarrow> baseMerge_props object ps
      | _ \<Rightarrow> object)"
| "baseMerge_elems object i [] = object"
| "baseMerge_elems object i (srcValue # rest) =
     baseMerge_elems (baseMerge_key object (Idx i) srcValue) (Suc i) rest"
| "baseMerge_props object [] = object"
| "baseMerge_props object ((k, srcValue) # rest) =
     baseMerge_props (baseMerge_key object (Key k) srcValue) rest"
| "baseMerge_key object key srcValue =
     (if isObject srcValue then baseMergeDeep object key srcValue
      else assignMergeValue object key srcValue)"
| "baseMergeDeep object key srcValue =
     (let objValue = get_prop object key
      in case srcValue of
           JArr es ps \<Rightarrow>
             assignMergeValue object key
               (baseMerge (if isArray objValue then objValue
                           else if isArrayLikeObject objValue then copyArray objValue
                           else JArr [] [])
                  srcValue)
         | JObj plain ps \<Rightarrow>
             if plain
             then assignMergeValue object key
                    (baseMerge (if \<not> isObject objValue \<or> isFunction objValue then JObj True []
                                else objValue)
                       srcValue)
             else assignMergeValue object key srcValue
         | _ \<Rightarrow> assignMergeValue object key srcValue)"
  by pat_completeness auto
termination
  by (relation "measure (\<lambda>x. case x of
        Inl (Inl (object, source)) \<Rightarrow> 4 * size source
      | Inl (Inr (object, i, es)) \<Rightarrow> 4 * size_list size es + 3
      | Inr (Inl (object, ps)) \<Rightarrow> 4 * size_list (size_prod (\<lambda>k. 0) size) ps + 3
      | Inr (Inr (Inl (object, key, srcValue))) \<Rightarrow> 4 * size srcValue + 2
      | Inr (Inr (Inr (object, key, srcValue))) \<Rightarrow> 4 * size srcValue + 1)") auto

text \<open>
  \<^verbatim>\<open>merge(object, source)\<close>: the destination is \<^verbatim>\<open>Object(object)\<close>, a falsy source is
  skipped.
\<close>

fun truthy :: "jv \<Rightarrow> bool" where
  "truthy JUndefined = False"
| "truthy JNull = False"
| "truthy (JBool b) = b"
| "truthy (JNum n) = (n \<noteq> 0)"
| "truthy (JStr s) = (s \<noteq> [])"
| "truthy v = True"

definition lodash_merge :: "jv \<Rightarrow> jv \<Rightarrow> jv" where
  "lodash_merge object source =
     (let target = (case object of JUndefined \<Rightarrow> JObj True [] | JNull \<Rightarrow> JObj True [] | _ \<Rightarrow> object)
      in if truthy source then baseMerge target source else target)"

section \<open>The runtime build: \<^verbatim>\<open>closeBundle\<close>\<close>

text \<open>\<^verbatim>\<open>typeof v === "object"\<close>.\<close>

fun typeof_object :: "jv \<Rightarrow> bool" where
  "typeof_object JNull = True"
| "typeof_object (JArr es ps) = True"
| "typeof_object (JObj plain ps) = True"
| "typeof_object v = False"

text \<open>The forced settings; \<^verbatim>\<open>outDir\<close> is undefined until \<^verbatim>\<open>writeBundle\<close> has set it.\<close>

definition pluginViteConfig :: "VitePluginNodeRedOptions \<Rightarrow> node_env \<Rightarrow> plugin_state \<Rightarrow> jv" where
  "pluginViteConfig pluginOptions env st =
     JObj True
       [(''configFile'', JBool False),
        (''ssr'', JObj True [(''target'', JStr ''node'')]),
        (''build'', JObj True
           [(''emptyOutDir'', JBool False),
            (''ssr'', JBool True),
            (''outDir'', case outDir st of Some d \<Rightarrow> JStr d | None \<Rightarrow> JUndefined),
            (''rollupOptions'', JObj True
               [(''input'', JArr (map JStr (nodeJsFiles st)) []),
                (''output'', JObj True
                   [(''format'', JStr ''cjs''),
                    (''preserveModules'', JBool True),
                    (''preserveModulesRoot'',
                       JStr (path_resolve env [path_join env [nodesDirectory pluginOptions, ''..'']]))])])])]"

text \<open>
  The result is the configuration passed to \<^verbatim>\<open>viteBuild\<close>, \<open>None\<close> when the hook
  returns without a second build.
\<close>

definition closeBundle :: "VitePluginNodeRedOptions \<Rightarrow> node_env \<Rightarrow> plugin_state \<Rightarrow> jv option" where
  "closeBundle pluginOptions env st =
     (if buildNodeJsFiles pluginOptions = JBool False \<or> length (nodeJsFiles st) < 1 then None
      else Some (lodash_merge
                   (if typeof_object (buildNodeJsFiles pluginOptions)
                    then buildNodeJsFiles pluginOptions else JObj True [])
                   (pluginViteConfig pluginOptions env st)))"

section \<open>Notions used to state the properties\<close>

text \<open>
  The only error of the scan loop is a subdirectory that cannot be listed:
  \<open>unreadable_subdir\<close> finds the first one.
\<close>

fun unreadable_subdir :: "node_env \<Rightarrow> string \<Rightarrow> string list \<Rightarrow> error option" where
  "unreadable_subdir env d [] = None"
| "unreadable_subdir env d (sub # rest) =
     (case fs_readdir env (path_join env [d, sub]) of
        None \<Rightarrow> Some (ReaddirRejected (path_join env [d, sub]))
      | Some contents \<Rightarrow> unreadable_subdir env d rest)"

text \<open>The bundle entries the loop of \<^verbatim>\<open>writeBundle\<close> acts on.\<close>

definition is_html_asset :: "output_file \<Rightarrow> bool" where
  "is_html_asset assetInfo = (output_type assetInfo = Asset \<and> endsWith (fileName assetInfo) ''.html'')"

text \<open>
  The name the claim predicts for an entry: the file name with its \<^verbatim>\<open>.html\<close> extension,
  that is its last five characters, replaced by \<^verbatim>\<open>.js\<close>. (The hook computes
  \<^verbatim>\<open>fileName.replace(".html", ".js")\<close>.)
\<close>

definition spec_js_name :: "string \<Rightarrow> string" where
  "spec_js_name f = take (length f - length ''.html'') f @ ''.js''"

text \<open>\<open>get_path v [k1, k2, \<dots>]\<close> is \<^verbatim>\<open>v.k1.k2\<dots>\<close>.\<close>

fun get_path :: "jv \<Rightarrow> string list \<Rightarrow> jv" where
  "get_path v [] = v"
| "get_path v (k # ks) = get_path (get_prop v (Key k)) ks"

text \<open>
  The destination of the merge in \<^verbatim>\<open>closeBundle\<close>: the user's object when
  \<^verbatim>\<open>buildNodeJsFiles\<close> is one, an empty object otherwise.
\<close>

definition user_config :: "VitePluginNodeRedOptions \<Rightarrow> jv" where
  "user_config pluginOptions =
     (case buildNodeJsFiles pluginOptions of
        JArr es ps \<Rightarrow> JArr es ps
      | JObj plain ps \<Rightarrow> JObj plain ps
      | _ \<Rightarrow> JObj True [])"

text \<open>Arrays and objects, the values that hold properties.\<close>

fun is_container :: "jv \<Rightarrow> bool" where
  "is_container (JArr es ps) = True"
| "is_container (JObj plain ps) = True"
| "is_container v = False"

text \<open>
  The value \<^verbatim>\<open>baseMergeDeep\<close> merges into: the destination's own value when it is of
  the kind of the source, a fresh one otherwise.
\<close>

definition init_object :: "jv \<Rightarrow> jv" where
  "init_object objValue = (if \<not> isObject objValue \<or> isFunction objValue then JObj True [] else objValue)"

definition init_array :: "jv \<Rightarrow> jv" where
  "init_array objValue =
     (if isArray objValue then objValue
      else if isArrayLikeObject objValue then copyArray objValue
      else JArr [] [])"

section \<open>A concrete project\<close>

text \<open>
  A small project to run the hooks on: the working directory \<^verbatim>\<open>/w\<close> holds the nodes
  directory \<^verbatim>\<open>nodes\<close> with the unit \<^verbatim>\<open>alpha\<close> (both files) and the unit \<^verbatim>\<open>beta\<close>
  (no logic file), a directory \<^verbatim>\<open>empty\<close> with one file and no subdirectory, and the
  file \<^verbatim>\<open>package.json\<close>. Paths are joined with a slash.
\<close>

fun slash_join :: "string list \<Rightarrow> string" where
  "slash_join [] = []"
| "slash_join [x] = x"
| "slash_join (x # y # ys) = x @ CHR ''/'' # slash_join (y # ys)"

text \<open>The reference descriptor \<^verbatim>\<open>{name: "pkg-a", dependencies: {"x": "1.0.0"}}\<close>.\<close>

definition reference_pkg_a :: SimplePackageJson where
  "reference_pkg_a =
     \<lparr> name = ''pkg-a'', version = ''0.3.0'', dependencies = Some [(''x'', ''1.0.0'')],
       devDependencies = None, node_red_nodes = [] \<rparr>"

text \<open>What the first pass emits for the unit \<^verbatim>\<open>alpha\<close>.\<close>

definition example_bundle :: "(string \<times> output_file) list" where
  "example_bundle =
     [(''nodes/alpha/alpha.html'', \<lparr> output_type = Asset, fileName = ''nodes/alpha/alpha.html'' \<rparr>),
      (''resources/alpha-Bx3k.js'', \<lparr> output_type = Chunk, fileName = ''resources/alpha-Bx3k.js'' \<rparr>),
      (''resources/style.css'', \<lparr> output_type = Asset, fileName = ''resources/style.css'' \<rparr>)]"

definition example_env :: node_env where
  "example_env =
     \<lparr> cwd = ''/w'',
       path_isAbsolute = (\<lambda>p. startsWith p ''/''),
       path_resolve = slash_join,
       path_normalize = (\<lambda>p. p),
       path_join = slash_join,
       path_dirname = (\<lambda>p. ''.''),
       fs_stat = (\<lambda>p. if p = ''/w/nodes'' then Some True
                       else if p = ''/w/empty'' then Some True
                       else if p = ''/w/package.json'' then Some False
                       else None),
       fs_readdir = (\<lambda>p.
         if p = ''/w/nodes''
         then Some [(''alpha'', Directory), (''beta'', Directory), (''README.md'', File)]
         else if p = ''/w/nodes/alpha'' then Some [(''alpha.html'', File), (''alpha.ts'', File)]
         else if p = ''/w/nodes/beta'' then Some [(''beta.html'', File)]
         else if p = ''/w/empty'' then Some [(''notes.txt'', File)]
         else None),
       read_json = (\<lambda>p. if p = ''/w/package.json'' then Some reference_pkg_a else None) \<rparr>"

definition initial_state :: plugin_state where
  "initial_state = \<lparr> nodeJsFiles = [], outDir = None \<rparr>"

text \<open>Two entries with the same stem in different directories.\<close>

definition same_stem_bundle :: "(string \<times> output_file) list" where
  "same_stem_bundle =
     [(''a/x.html'', \<lparr> output_type = Asset, fileName = ''a/x.html'' \<rparr>),
      (''b/x.html'', \<lparr> output_type = Asset, fileName = ''b/x.html'' \<rparr>)]"

text \<open>
  The state after the first pass on the concrete project, and a user configuration that
  sets \<^verbatim>\<open>build.outDir\<close> and lists three entry points.
\<close>

definition built_state :: plugin_state where
  "built_state =
     \<lparr> nodeJsFiles = [''/w/nodes/alpha/alpha.ts'', ''/w/nodes/beta/beta.js''], outDir = Some ''dist'' \<rparr>"

definition user_build_config :: jv where
  "user_build_config =
     JObj True
       [(''logLevel'', JStr ''warn''),
        (''ssr'', JObj True [(''noExternal'', JBool True)]),
        (''build'', JObj True
           [(''minify'', JBool True),
            (''outDir'', JStr ''elsewhere''),
            (''rollupOptions'', JObj True
               [(''input'', JArr [JStr ''u0.ts'', JStr ''u1.ts'', JStr ''u2.ts''] []),
                (''treeshake'', JBool False),
                (''output'', JObj True [(''sourcemap'', JBool True)])])])]"

text \<open>What the second build receives for this user configuration.\<close>

definition merged_example :: jv where
  "merged_example =
     JObj True
         [(''logLevel'', JStr ''warn''),
          (''ssr'', JObj True [(''noExternal'', JBool True), (''target'', JStr ''node'')]),
          (''build'', JObj True
            [(''minify'', JBool True),
             (''outDir'', JStr ''dist''),
             (''rollupOptions'', JObj True
               [(''input'', JArr [JStr ''/w/nodes/alpha/alpha.ts'', JStr ''/w/nodes/beta/beta.js'',
                                  JStr ''u2.ts''] []),
                (''treeshake'', JBool False),
                (''output'', JObj True
                   [(''sourcemap'', JBool True), (''format'', JStr ''cjs''),
                    (''preserveModules'', JBool True),
                    (''preserveModulesRoot'', JStr ''nodes/..'')])]),
             (''emptyOutDir'', JBool False),
             (''ssr'', JBool True)]),
          (''configFile'', JBool False)]"

section \<open>Properties of the \<^verbatim>\<open>config\<close> hook\<close>

text \<open>
  Claim C10. When the host's command is \<^verbatim>\<open>serve\<close>, the \<^verbatim>\<open>config\<close> hook throws at
  once: whatever the options, the file system, the host configuration and the state,
  the result is the error, so nothing was scanned and nothing synthesised.
\<close>

theorem config_serve_throws:
  "config pluginOptions env cfg Serve st = Inl ServeUnsupported"
  by (simp add: config_def)

subsection \<open>Errors of the scan loop\<close>

lemma scan_subdirs_Inl_iff:
  "(scan_subdirs env q d subs nodes js log = Inl e) = (unreadable_subdir env d subs = Some e)"
  by (induction subs arbitrary: nodes js log) (simp_all add: Let_def split: option.splits)

lemma scan_subdirs_Inr_iff:
  "(\<exists>r. scan_subdirs env q d subs nodes js log = Inr r) = (unreadable_subdir env d subs = None)"
proof (cases "scan_subdirs env q d subs nodes js log")
  case (Inl e)
  then show ?thesis using scan_subdirs_Inl_iff [of env q d subs nodes js log e] by simp
next
  case (Inr r)
  have "unreadable_subdir env d subs \<noteq> Some e" for e
    using Inr scan_subdirs_Inl_iff [of env q d subs nodes js log e] by simp
  then have none: "unreadable_subdir env d subs = None"
    by (cases "unreadable_subdir env d subs") auto
  from Inr have "\<exists>r. scan_subdirs env q d subs nodes js log = Inr r"
    by blast
  with none show ?thesis by blast
qed

lemma unreadable_subdir_Some:
  "unreadable_subdir env d subs = Some e \<Longrightarrow>
     \<exists>sub \<in> set subs. e = ReaddirRejected (path_join env [d, sub])
        \<and> fs_readdir env (path_join env [d, sub]) = None"
  by (induction subs) (auto split: option.splits)

lemma unreadable_subdir_None:
  "\<forall>sub \<in> set subs. fs_readdir env (path_join env [d, sub]) \<noteq> None
     \<Longrightarrow> unreadable_subdir env d subs = None"
  by (induction subs) (auto split: option.splits)

lemma scan_subdirs_error:
  "scan_subdirs env q d subs nodes js log = Inl e \<Longrightarrow> \<exists>p. e = ReaddirRejected p"
  by (auto simp: scan_subdirs_Inl_iff dest: unreadable_subdir_Some)

lemma resolve_nodesDir_silent [simp]:
  "resolve_nodesDir (pluginOptions\<lparr>silent := b\<rparr>) env = resolve_nodesDir pluginOptions env"
  by (simp add: resolve_nodesDir_def)

text \<open>The hook once the root is a directory with the subdirectories \<open>subs\<close>.\<close>

lemma config_scanned:
  assumes "cmd \<noteq> Serve" and "nodesDirectory pluginOptions \<noteq> []"
    and "fs_stat env (resolve_nodesDir pluginOptions env) = Some True"
    and "fs_readdir env (resolve_nodesDir pluginOptions env) = Some contents"
    and "map fst (filter (\<lambda>dirent. snd dirent = Directory) contents) \<noteq> []"
  shows "config pluginOptions env cfg cmd st =
     (case scan_subdirs env (silent pluginOptions) (resolve_nodesDir pluginOptions env)
             (map fst (filter (\<lambda>dirent. snd dirent = Directory) contents)) [] (nodeJsFiles st) [] of
        Inl e \<Rightarrow> Inl e
      | Inr (nodes, jsFiles, log) \<Rightarrow>
          if \<not> silent pluginOptions
          then
            (if (case build_assetsDir cfg of Some a \<Rightarrow> a \<noteq> [] \<and> a \<noteq> ''resources'' | None \<Rightarrow> False)
             then Inl AssetsDirConflict
             else Inr (Some \<lparr> assetsDir = ''resources'', rollupOptions_input = nodes \<rparr>,
                       log @ [FoundNodes (length (map fst (filter (\<lambda>dirent. snd dirent = Directory) contents)))
                                (resolve_nodesDir pluginOptions env) nodes],
                       st\<lparr>nodeJsFiles := jsFiles\<rparr>))
          else Inr (Some \<lparr> assetsDir = ''resources'', rollupOptions_input = nodes \<rparr>,
                    log, st\<lparr>nodeJsFiles := jsFiles\<rparr>))"
  using assms by (simp add: config_def Let_def)

subsection \<open>The root of the scan\<close>

text \<open>
  Claim C9. Under the build command and with a nodes directory configured, the hook
  fails when the resolved root does not exist (\<^verbatim>\<open>fs.stat\<close> rejects), when it is not a
  directory, and when it has no immediate subdirectory. When the root is a directory
  with at least one subdirectory, none of these errors is raised; if moreover every
  subdirectory can be listed, the scan raises nothing at all, and the hook succeeds or
  stops at the assets-directory check that follows the scan.
\<close>

theorem config_root_check:
  assumes "cmd = Build" and "nodesDirectory pluginOptions \<noteq> []"
  shows
    "(fs_stat env (resolve_nodesDir pluginOptions env) = None \<longrightarrow>
        config pluginOptions env cfg cmd st = Inl (StatRejected (resolve_nodesDir pluginOptions env)))
     \<and> (fs_stat env (resolve_nodesDir pluginOptions env) = Some False \<longrightarrow>
        config pluginOptions env cfg cmd st = Inl (NotADirectory (resolve_nodesDir pluginOptions env)))
     \<and> (fs_stat env (resolve_nodesDir pluginOptions env) = Some True
          \<and> fs_readdir env (resolve_nodesDir pluginOptions env) = Some contents
          \<and> (\<forall>dirent \<in> set contents. snd dirent \<noteq> Directory) \<longrightarrow>
        config pluginOptions env cfg cmd st = Inl (NoSubdirectories (resolve_nodesDir pluginOptions env)))
     \<and> (fs_stat env (resolve_nodesDir pluginOptions env) = Some True
          \<and> fs_readdir env (resolve_nodesDir pluginOptions env) = Some contents
          \<and> (\<exists>dirent \<in> set contents. snd dirent = Directory) \<longrightarrow>
        (\<forall>p. config pluginOptions env cfg cmd st \<noteq> Inl (StatRejected p)
            \<and> config pluginOptions env cfg cmd st \<noteq> Inl (NotADirectory p)
            \<and> config pluginOptions env cfg cmd st \<noteq> Inl (NoSubdirectories p))
        \<and> ((\<forall>dirent \<in> set contents. snd dirent = Directory \<longrightarrow>
               fs_readdir env (path_join env [resolve_nodesDir pluginOptions env, fst dirent]) \<noteq> None) \<longrightarrow>
             config pluginOptions env cfg cmd st = Inl AssetsDirConflict
             \<or> (\<exists>r. config pluginOptions env cfg cmd st = Inr r)))"
proof (intro conjI impI)
  let ?d = "resolve_nodesDir pluginOptions env"
  let ?subs = "map fst (filter (\<lambda>dirent. snd dirent = Directory) contents)"
  show "config pluginOptions env cfg cmd st = Inl (StatRejected ?d)" if "fs_stat env ?d = None"
    using that assms by (simp add: config_def)
  show "config pluginOptions env cfg cmd st = Inl (NotADirectory ?d)" if "fs_stat env ?d = Some False"
    using that assms by (simp add: config_def)
  show "config pluginOptions env cfg cmd st = Inl (NoSubdirectories ?d)"
    if "fs_stat env ?d = Some True \<and> fs_readdir env ?d = Some contents
          \<and> (\<forall>dirent \<in> set contents. snd dirent \<noteq> Directory)"
  proof -
    from that have "filter (\<lambda>dirent. snd dirent = Directory) contents = []"
      by (simp add: filter_empty_conv)
    with that assms show ?thesis by (simp add: config_def)
  qed
  assume dir: "fs_stat env ?d = Some True \<and> fs_readdir env ?d = Some contents
          \<and> (\<exists>dirent \<in> set contents. snd dirent = Directory)"
  then have nonempty: "?subs \<noteq> []"
    by (auto simp: filter_empty_conv)
  note scanned = config_scanned [of cmd pluginOptions env contents cfg st]
  have eq: "config pluginOptions env cfg cmd st =
     (case scan_subdirs env (silent pluginOptions) ?d ?subs [] (nodeJsFiles st) [] of
        Inl e \<Rightarrow> Inl e
      | Inr (nodes, jsFiles, log) \<Rightarrow>
          if \<not> silent pluginOptions
          then
            (if (case build_assetsDir cfg of Some a \<Rightarrow> a \<noteq> [] \<and> a \<noteq> ''resources'' | None \<Rightarrow> False)
             then Inl AssetsDirConflict
             else Inr (Some \<lparr> assetsDir = ''resources'', rollupOptions_input = nodes \<rparr>,
                       log @ [FoundNodes (length ?subs) ?d nodes],
                       st\<lparr>nodeJsFiles := jsFiles\<rparr>))
          else Inr (Some \<lparr> assetsDir = ''resources'', rollupOptions_input = nodes \<rparr>,
                    log, st\<lparr>nodeJsFiles := jsFiles\<rparr>))"
    using scanned assms dir nonempty by simp
  show "\<forall>p. config pluginOptions env cfg cmd st \<noteq> Inl (StatRejected p)
            \<and> config pluginOptions env cfg cmd st \<noteq> Inl (NotADirectory p)
            \<and> config pluginOptions env cfg cmd st \<noteq> Inl (NoSubdirectories p)"
    unfolding eq
    by (auto split: sum.splits dest: scan_subdirs_error)
  assume readable: "\<forall>dirent \<in> set contents. snd dirent = Directory \<longrightarrow>
               fs_readdir env (path_join env [?d, fst dirent]) \<noteq> None"
  then have "unreadable_subdir env ?d ?subs = None"
    by (intro unreadable_subdir_None) auto
  then obtain r where "scan_subdirs env (silent pluginOptions) ?d ?subs [] (nodeJsFiles st) [] = Inr r"
    using scan_subdirs_Inr_iff [of env "silent pluginOptions" ?d ?subs "[]" "nodeJsFiles st" "[]"] by blast
  then show "config pluginOptions env cfg cmd st = Inl AssetsDirConflict
             \<or> (\<exists>r. config pluginOptions env cfg cmd st = Inr r)"
    unfolding eq by (cases r) auto
qed

theorem config_root_check_witness:
  "config (defaultOptions\<lparr>nodesDirectory := ''missing''\<rparr>) example_env
       \<lparr>build_assetsDir = None\<rparr> Build initial_state = Inl (StatRejected ''/w/missing'')
   \<and> config (defaultOptions\<lparr>nodesDirectory := ''package.json''\<rparr>) example_env
       \<lparr>build_assetsDir = None\<rparr> Build initial_state = Inl (NotADirectory ''/w/package.json'')
   \<and> config (defaultOptions\<lparr>nodesDirectory := ''empty''\<rparr>) example_env
       \<lparr>build_assetsDir = None\<rparr> Build initial_state = Inl (NoSubdirectories ''/w/empty'')
   \<and> config defaultOptions example_env \<lparr>build_assetsDir = None\<rparr> Build initial_state
       \<noteq> Inl (NoSubdirectories ''/w/nodes'')
   \<and> (config defaultOptions example_env \<lparr>build_assetsDir = None\<rparr> Build initial_state = Inl AssetsDirConflict
       \<or> (\<exists>r. config defaultOptions example_env \<lparr>build_assetsDir = None\<rparr> Build initial_state = Inr r))"
proof -
  note inst = config_root_check [where cmd = Build and env = example_env
      and cfg = "\<lparr>build_assetsDir = None\<rparr>" and st = initial_state]
  have 1: "config (defaultOptions\<lparr>nodesDirectory := ''missing''\<rparr>) example_env
       \<lparr>build_assetsDir = None\<rparr> Build initial_state = Inl (StatRejected ''/w/missing'')"
    using inst [where pluginOptions = "defaultOptions\<lparr>nodesDirectory := ''missing''\<rparr>"]
    by (simp add: resolve_nodesDir_def defaultOptions_def example_env_def)
  have 2: "config (defaultOptions\<lparr>nodesDirectory := ''package.json''\<rparr>) example_env
       \<lparr>build_assetsDir = None\<rparr> Build initial_state = Inl (NotADirectory ''/w/package.json'')"
    using inst [where pluginOptions = "defaultOptions\<lparr>nodesDirectory := ''package.json''\<rparr>"]
    by (simp add: resolve_nodesDir_def defaultOptions_def example_env_def)
  have 3: "config (defaultOptions\<lparr>nodesDirectory := ''empty''\<rparr>) example_env
       \<lparr>build_assetsDir = None\<rparr> Build initial_state = Inl (NoSubdirectories ''/w/empty'')"
    using inst [where pluginOptions = "defaultOptions\<lparr>nodesDirectory := ''empty''\<rparr>"
        and contents = "[(''notes.txt'', File)]"]
    by (simp add: resolve_nodesDir_def defaultOptions_def example_env_def)
  have 4: "config defaultOptions example_env \<lparr>build_assetsDir = None\<rparr> Build initial_state
       \<noteq> Inl (NoSubdirectories ''/w/nodes'')
   \<and> (config defaultOptions example_env \<lparr>build_assetsDir = None\<rparr> Build initial_state = Inl AssetsDirConflict
       \<or> (\<exists>r. config defaultOptions example_env \<lparr>build_assetsDir = None\<rparr> Build initial_state = Inr r))"
    using inst [where pluginOptions = defaultOptions
        and contents = "[(''alpha'', Directory), (''beta'', Directory), (''README.md'', File)]"]
    by (simp add: resolve_nodesDir_def defaultOptions_def example_env_def)
  from 1 2 3 4 show ?thesis by blast
qed

subsection \<open>The silent flag\<close>

lemma scan_subdirs_not_conflict:
  "scan_subdirs env q d subs nodes js log \<noteq> Inl AssetsDirConflict"
  by (auto dest: scan_subdirs_error)




subsection \<open>Units missing a file\<close>

text \<open>
  Claim C1 on the concrete project. The unit \<^verbatim>\<open>beta\<close> has no logic file, and the hook
  warns about it (\<open>MissingFile\<close>); the loop then goes on to the two assignments all the
  same, so \<^verbatim>\<open>beta\<close> is an entry point of the returned configuration and
  \<^verbatim>\<open>beta/beta.js\<close>, a file that does not exist, is among the recorded logic paths.
\<close>

theorem config_keeps_invalid_unit:
  "config defaultOptions example_env \<lparr>build_assetsDir = None\<rparr> Build initial_state =
     Inr (Some \<lparr> assetsDir = ''resources'',
                 rollupOptions_input = [(''alpha'', ''/w/nodes/alpha/alpha.html''),
                                        (''beta'', ''/w/nodes/beta/beta.html'')] \<rparr>,
          [MissingFile ''beta'',
           FoundNodes 2 ''/w/nodes'' [(''alpha'', ''/w/nodes/alpha/alpha.html''),
                                      (''beta'', ''/w/nodes/beta/beta.html'')]],
          \<lparr> nodeJsFiles = [''/w/nodes/alpha/alpha.ts'', ''/w/nodes/beta/beta.js''],
            outDir = None \<rparr>)"
  by (simp add: config_def resolve_nodesDir_def defaultOptions_def example_env_def
        initial_state_def record_set_def)

section \<open>Properties of the asset path rewriter\<close>

text \<open>
  Claim C2 on a concrete page. The expression matches every \<^verbatim>\<open>src="/resources/\<close> and
  \<^verbatim>\<open>href="/resources/\<close>, not only the duplicated form, and the text it writes starts
  with the same characters. So the rewriter applies again to its own output: the page
  with the package name \<^verbatim>\<open>pkg-a\<close> already in place gets it a second time.
\<close>

theorem transformIndexHtml_rewrites_again:
  \<open>transformIndexHtml defaultOptions (Some reference_pkg_a) ''<script src="/resources/x.js">''
     = ''<script src="/resources/pkg-a/x.js">''
   \<and> transformIndexHtml defaultOptions (Some reference_pkg_a) ''<script src="/resources/pkg-a/x.js">''
     = ''<script src="/resources/pkg-a/pkg-a/x.js">''\<close>
  by (simp add: transformIndexHtml_def reference_pkg_a_def re_exec_def)

text \<open>
  Claim C3 on the claim's own input. The duplicated form
  \<^verbatim>\<open>src="/resources/nodes/resources/x.js"\<close> is not collapsed: the package name is put
  in front of \<^verbatim>\<open>nodes/resources/\<close>, which stays, and the expected attribute
  \<^verbatim>\<open>src="/resources/pkg-a/x.js"\<close> is nowhere in the result. An attribute that is not of
  the duplicated form, \<^verbatim>\<open>href="/resources/theme.css"\<close>, is rewritten as well.
\<close>

theorem transformIndexHtml_duplicated_form:
  \<open>transformIndexHtml defaultOptions (Some reference_pkg_a)
       ''<script src="/resources/nodes/resources/x.js"></script><link href="/resources/theme.css">''
     = ''<script src="/resources/pkg-a/nodes/resources/x.js"></script><link href="/resources/pkg-a/theme.css">''
   \<and> \<not> str_includes (transformIndexHtml defaultOptions (Some reference_pkg_a)
       ''<script src="/resources/nodes/resources/x.js"></script><link href="/resources/theme.css">'')
       ''src="/resources/pkg-a/x.js"''\<close>
  by (simp add: transformIndexHtml_def reference_pkg_a_def re_exec_def)

section \<open>Properties of the manifest emitter\<close>

text \<open>
  Claim C4 on a concrete configuration. With \<^verbatim>\<open>packageJson.path\<close> empty no reference
  is loaded; \<^verbatim>\<open>packageName\<close> is empty and \<^verbatim>\<open>copyPackageName\<close> is true. The hook
  tests for a missing name only inside \<^verbatim>\<open>if (referencePackageJson)\<close>, so here it
  throws nothing and hands a manifest with the empty name to \<^verbatim>\<open>fs.writeFile\<close>.
\<close>

theorem writeBundle_empty_name:
  "load_reference
     (defaultOptions\<lparr>packageJson := Some \<lparr> path = '''', copyPackageName = True, copyDependencies = True \<rparr>\<rparr>)
     example_env = Inr None
   \<and> writeBundle
     (defaultOptions\<lparr>packageJson := Some \<lparr> path = '''', copyPackageName = True, copyDependencies = True \<rparr>\<rparr>)
     None example_env \<lparr> options_dir = Some ''dist'', options_file = None \<rparr> example_bundle initial_state
     = Inr (Some (''/w/dist/package.json'',
                  \<lparr> name = '''', version = ''1.0.0'', dependencies = None, devDependencies = None,
                    node_red_nodes = [(''alpha'', ''nodes/alpha/alpha.js'')] \<rparr>),
            \<lparr> nodeJsFiles = [], outDir = Some ''dist'' \<rparr>)"
  by (simp add: load_reference_def writeBundle_def defaultOptions_def example_env_def example_bundle_def
       initial_state_def endsWith_def path_parse_name_def record_set_def)

text \<open>
  Claim C7. With a reference descriptor loaded and both copy flags on, the hook does not
  fail and the manifest it writes has the reference's name, the version \<^verbatim>\<open>1.0.0\<close>, the
  reference's dependencies and its devDependencies, each the empty map when the
  reference has none. With \<^verbatim>\<open>copyDependencies\<close> off, whatever else is configured, a
  manifest that is written has neither map. The witness is the descriptor
  \<^verbatim>\<open>{name: "pkg-a", dependencies: {"x": "1.0.0"}}\<close> under the default options.
\<close>

theorem writeBundle_copies_reference:
  "(packageJson pluginOptions = Some pj \<and> copyPackageName pj \<and> copyDependencies pj \<longrightarrow>
      (\<exists>p pkg st'. writeBundle pluginOptions (Some ref) env outputOptions outputBundle st = Inr (Some (p, pkg), st')
         \<and> name pkg = name ref \<and> version pkg = ''1.0.0''
         \<and> dependencies pkg = Some (case dependencies ref of Some d \<Rightarrow> d | None \<Rightarrow> [])
         \<and> devDependencies pkg = Some (case devDependencies ref of Some d \<Rightarrow> d | None \<Rightarrow> [])))
   \<and> (packageJson pluginOptions = Some pj \<and> \<not> copyDependencies pj
        \<and> writeBundle pluginOptions referencePackageJson env outputOptions outputBundle st = Inr (Some (p', pkg'), st'') \<longrightarrow>
      dependencies pkg' = None \<and> devDependencies pkg' = None \<and> version pkg' = ''1.0.0'')"
  by (auto simp: writeBundle_def Let_def split: option.splits if_splits sum.splits)

theorem writeBundle_copies_reference_witness:
  "writeBundle defaultOptions (Some reference_pkg_a) example_env
       \<lparr> options_dir = Some ''dist'', options_file = None \<rparr> example_bundle initial_state
     = Inr (Some (''/w/dist/package.json'',
                  \<lparr> name = ''pkg-a'', version = ''1.0.0'', dependencies = Some [(''x'', ''1.0.0'')],
                    devDependencies = Some [], node_red_nodes = [(''alpha'', ''nodes/alpha/alpha.js'')] \<rparr>),
            \<lparr> nodeJsFiles = [], outDir = Some ''dist'' \<rparr>)
   \<and> writeBundle (defaultOptions\<lparr>packageJson := Some \<lparr> path = ''package.json'', copyPackageName = True, copyDependencies = False \<rparr>\<rparr>)
       (Some reference_pkg_a) example_env
       \<lparr> options_dir = Some ''dist'', options_file = None \<rparr> example_bundle initial_state
     = Inr (Some (''/w/dist/package.json'',
                  \<lparr> name = ''pkg-a'', version = ''1.0.0'', dependencies = None,
                    devDependencies = None, node_red_nodes = [(''alpha'', ''nodes/alpha/alpha.js'')] \<rparr>),
            \<lparr> nodeJsFiles = [], outDir = Some ''dist'' \<rparr>)"
proof -
  have ev: "writeBundle defaultOptions (Some reference_pkg_a) example_env
       \<lparr> options_dir = Some ''dist'', options_file = None \<rparr> example_bundle initial_state
     = Inr (Some (''/w/dist/package.json'',
                  \<lparr> name = ''pkg-a'', version = ''1.0.0'', dependencies = Some [(''x'', ''1.0.0'')],
                    devDependencies = Some [], node_red_nodes = [(''alpha'', ''nodes/alpha/alpha.js'')] \<rparr>),
            \<lparr> nodeJsFiles = [], outDir = Some ''dist'' \<rparr>)"
    using writeBundle_copies_reference [where pluginOptions = defaultOptions
        and pj = "\<lparr> path = ''package.json'', copyPackageName = True, copyDependencies = True \<rparr>"
        and ref = reference_pkg_a and env = example_env
        and outputOptions = "\<lparr> options_dir = Some ''dist'', options_file = None \<rparr>"
        and outputBundle = example_bundle and st = initial_state]
    by (simp add: writeBundle_def defaultOptions_def example_env_def example_bundle_def
       initial_state_def endsWith_def path_parse_name_def record_set_def reference_pkg_a_def)
  have ev2: "writeBundle (defaultOptions\<lparr>packageJson := Some \<lparr> path = ''package.json'', copyPackageName = True, copyDependencies = False \<rparr>\<rparr>)
       (Some reference_pkg_a) example_env
       \<lparr> options_dir = Some ''dist'', options_file = None \<rparr> example_bundle initial_state
     = Inr (Some (''/w/dist/package.json'',
                  \<lparr> name = ''pkg-a'', version = ''1.0.0'', dependencies = None,
                    devDependencies = None, node_red_nodes = [(''alpha'', ''nodes/alpha/alpha.js'')] \<rparr>),
            \<lparr> nodeJsFiles = [], outDir = Some ''dist'' \<rparr>)"
    using writeBundle_copies_reference [where pluginOptions = "defaultOptions\<lparr>packageJson := Some \<lparr> path = ''package.json'', copyPackageName = True, copyDependencies = False \<rparr>\<rparr>"
        and pj = "\<lparr> path = ''package.json'', copyPackageName = True, copyDependencies = False \<rparr>"
        and referencePackageJson = "Some reference_pkg_a" and env = example_env
        and outputOptions = "\<lparr> options_dir = Some ''dist'', options_file = None \<rparr>"
        and outputBundle = example_bundle and st = initial_state]
    by (simp add: writeBundle_def defaultOptions_def example_env_def example_bundle_def
       initial_state_def endsWith_def path_parse_name_def record_set_def reference_pkg_a_def)
  from ev ev2 show ?thesis by blast
qed

subsection \<open>The map of nodes\<close>

lemma add_nodes_step:
  "add_nodes ((key, assetInfo) # rest) nodes =
     add_nodes rest
       (if is_html_asset assetInfo
        then record_set (path_parse_name (fileName assetInfo))
               (replace_first ''.html'' ''.js'' (fileName assetInfo)) nodes
        else nodes)"
  by (simp add: is_html_asset_def)

lemma add_nodes_append:
  "add_nodes (xs @ ys) nodes = add_nodes ys (add_nodes xs nodes)"
  by (induction xs arbitrary: nodes) (auto simp del: add_nodes.simps(2) simp: add_nodes_step)

lemma keys_record_set:
  "fst ` set (record_set k v nodes) = (if k = ''__proto__'' then {} else {k}) \<union> fst ` set nodes"
  by (simp add: record_set_def dom_update)

lemma map_of_record_set:
  "map_of (record_set k v nodes) k' =
     (if k = k' \<and> k \<noteq> ''__proto__'' then Some v else map_of nodes k')"
  by (simp add: record_set_def update_conv')

lemma keys_add_nodes:
  "fst ` set (add_nodes xs nodes) =
     fst ` set nodes \<union>
       ({path_parse_name (fileName a) | k a. (k, a) \<in> set xs \<and> is_html_asset a} - {''__proto__''})"
proof (induction xs arbitrary: nodes)
  case Nil
  then show ?case by simp
next
  case (Cons x xs)
  obtain k a where x: "x = (k, a)" by (cases x)
  show ?case
    unfolding x add_nodes_step Cons.IH
    by (auto simp: keys_record_set)
qed

lemma map_of_add_nodes_other:
  "\<forall>(k, a) \<in> set xs. is_html_asset a \<longrightarrow> path_parse_name (fileName a) \<noteq> key
     \<Longrightarrow> map_of (add_nodes xs nodes) key = map_of nodes key"
proof (induction xs arbitrary: nodes)
  case Nil
  then show ?case by simp
next
  case (Cons x xs)
  obtain k a where x: "x = (k, a)" by (cases x)
  from Cons.prems have rest: "\<forall>(k, a) \<in> set xs. is_html_asset a \<longrightarrow> path_parse_name (fileName a) \<noteq> key"
    by simp
  from Cons.prems x have here: "is_html_asset a \<Longrightarrow> path_parse_name (fileName a) \<noteq> key"
    by simp
  show ?case
    unfolding x add_nodes_step Cons.IH [OF rest]
    using here by (simp add: map_of_record_set)
qed

lemma str_includes_iff: "str_includes s p \<longleftrightarrow> (\<exists>a b. s = a @ p @ b)"
proof (induction s)
  case Nil
  then show ?case by simp
next
  case (Cons c cs)
  show ?case
  proof
    assume "str_includes (c # cs) p"
    then consider "startsWith (c # cs) p" | "str_includes cs p" by auto
    then show "\<exists>a b. c # cs = a @ p @ b"
    proof cases
      case 1
      then obtain r where "c # cs = p @ r" by (auto simp: startsWith_iff)
      then have "c # cs = [] @ p @ r" by simp
      then show ?thesis by blast
    next
      case 2
      with Cons.IH obtain a b where "cs = a @ p @ b" by blast
      then have "c # cs = (c # a) @ p @ b" by simp
      then show ?thesis by blast
    qed
  next
    assume "\<exists>a b. c # cs = a @ p @ b"
    then obtain a b where ab: "c # cs = a @ p @ b" by blast
    show "str_includes (c # cs) p"
    proof (cases a)
      case Nil
      with ab have "startsWith (c # cs) p" by (auto simp: startsWith_iff)
      then show ?thesis by simp
    next
      case (Cons a1 as)
      with ab have "cs = as @ p @ b" by simp
      with Cons.IH have "str_includes cs p" by blast
      then show ?thesis by simp
    qed
  qed
qed

lemma replace_first_suffix:
  assumes "pat \<noteq> []" and "\<not> str_includes (butlast (b @ pat)) pat"
  shows "replace_first pat rep (b @ pat) = b @ rep"
  using assms(2)
proof (induction b)
  case Nil
  from assms(1) obtain c cs where "pat = c # cs" by (cases pat) auto
  moreover have "startsWith pat pat" by (simp add: startsWith_iff)
  ultimately show ?case by auto
next
  case (Cons c b)
  have no: "\<not> startsWith (c # b @ pat) pat"
  proof
    assume "startsWith (c # b @ pat) pat"
    then obtain r where r: "c # b @ pat = pat @ r" by (auto simp: startsWith_iff)
    then have "r \<noteq> []" by (cases r) (auto dest: arg_cong [where f = length])
    with r have "butlast ((c # b) @ pat) = [] @ pat @ butlast r"
      by (simp add: butlast_append)
    then have "str_includes (butlast ((c # b) @ pat)) pat"
      unfolding str_includes_iff by blast
    with Cons.prems show False by simp
  qed
  from assms(1) have "butlast ((c # b) @ pat) = c # butlast (b @ pat)" by simp
  with Cons.prems have "\<not> str_includes (butlast (b @ pat)) pat" by simp
  with Cons.IH have "replace_first pat rep (b @ pat) = b @ rep" by simp
  with no show ?case by simp
qed

lemma endsWith_iff: "endsWith s p \<longleftrightarrow> (\<exists>b. s = b @ p)"
proof -
  have "(\<exists>r. rev s = rev p @ r) \<longleftrightarrow> (\<exists>b. s = b @ p)"
  proof
    assume "\<exists>r. rev s = rev p @ r"
    then obtain r where "rev s = rev p @ r" by blast
    then have "rev (rev s) = rev (rev p @ r)" by simp
    then have "s = rev r @ p" by simp
    then show "\<exists>b. s = b @ p" by blast
  next
    assume "\<exists>b. s = b @ p"
    then obtain b where "s = b @ p" by blast
    then have "rev s = rev p @ rev b" by simp
    then show "\<exists>r. rev s = rev p @ r" by blast
  qed
  then show ?thesis by (simp add: endsWith_def startsWith_iff)
qed

lemma replace_first_html:
  assumes "endsWith f ''.html''" and "\<not> str_includes (butlast f) ''.html''"
  shows "replace_first ''.html'' ''.js'' f = spec_js_name f"
proof -
  from assms(1) obtain b where f: "f = b @ ''.html''" by (auto simp: endsWith_iff)
  with assms(2) have "replace_first ''.html'' ''.js'' (b @ ''.html'') = b @ ''.js''"
    by (intro replace_first_suffix) simp_all
  with f show ?thesis by (simp add: spec_js_name_def)
qed

lemma path_parse_name_html:
  assumes "stem \<noteq> []" and "CHR ''/'' \<notin> set stem" and "d = [] \<or> last d = CHR ''/''"
  shows "path_parse_name (d @ stem @ ''.html'') = stem"
proof -
  have tw: "takeWhile (\<lambda>c. c \<noteq> CHR ''/'') (rev d) = []"
    using assms(3) by (cases d rule: rev_cases) auto
  have "\<And>x. x \<in> set (rev stem) \<Longrightarrow> x \<noteq> CHR ''/''"
    using assms(2) by auto
  then have "takeWhile (\<lambda>c. c \<noteq> CHR ''/'') (rev stem @ rev d)
      = rev stem @ takeWhile (\<lambda>c. c \<noteq> CHR ''/'') (rev d)"
    by (rule takeWhile_append2)
  then have tw2: "takeWhile (\<lambda>c. c \<noteq> CHR ''/'') (rev stem @ rev d) = rev stem"
    using tw by simp
  show ?thesis
    using assms(1) by (simp add: path_parse_name_def Let_def tw2)
qed

lemma writeBundle_nodes_eq:
  "writeBundle pluginOptions referencePackageJson env outputOptions outputBundle st
      = Inr (Some (p, pkg), st') \<Longrightarrow> node_red_nodes pkg = add_nodes outputBundle []"
  by (auto simp: writeBundle_def Let_def split: option.splits if_splits sum.splits)

text \<open>
  Claim C5, as stated, on two entries with one stem. The map is keyed by the stem alone,
  so the second entry overwrites the first: the first entry \<^verbatim>\<open>a/x.html\<close> is an asset
  ending in \<^verbatim>\<open>.html\<close> with the stem \<^verbatim>\<open>x\<close>, and the map sends \<^verbatim>\<open>x\<close> to
  \<^verbatim>\<open>b/x.js\<close>, not to \<^verbatim>\<open>a/x.js\<close>.
\<close>

theorem writeBundle_same_stem:
  "writeBundle defaultOptions (Some reference_pkg_a) example_env
       \<lparr> options_dir = Some ''dist'', options_file = None \<rparr> same_stem_bundle initial_state
     = Inr (Some (''/w/dist/package.json'',
                  \<lparr> name = ''pkg-a'', version = ''1.0.0'', dependencies = Some [(''x'', ''1.0.0'')],
                    devDependencies = Some [], node_red_nodes = [(''x'', ''b/x.js'')] \<rparr>),
            \<lparr> nodeJsFiles = [], outDir = Some ''dist'' \<rparr>)
   \<and> same_stem_bundle ! 0 = (''a/x.html'', \<lparr> output_type = Asset, fileName = ''a/x.html'' \<rparr>)
   \<and> is_html_asset \<lparr> output_type = Asset, fileName = ''a/x.html'' \<rparr>
   \<and> path_parse_name ''a/x.html'' = ''x''
   \<and> spec_js_name ''a/x.html'' = ''a/x.js''
   \<and> map_of [(''x'', ''b/x.js'')] ''x'' \<noteq> Some ''a/x.js''"
  by (simp add: writeBundle_def defaultOptions_def example_env_def same_stem_bundle_def
       initial_state_def endsWith_def path_parse_name_def record_set_def reference_pkg_a_def
       is_html_asset_def spec_js_name_def)

text \<open>
  Claim C5, amended. In the manifest the hook writes, the keys of \<^verbatim>\<open>node-red.nodes\<close>
  are exactly the stems (\<^verbatim>\<open>path.parse(fileName).name\<close>) of the asset entries whose name
  ends in \<^verbatim>\<open>.html\<close>, the stem \<^verbatim>\<open>__proto__\<close> apart, which an object literal cannot
  take as a key. The value under a stem comes from the last entry with that stem; when
  \<^verbatim>\<open>.html\<close> occurs in that entry's file name only as its extension, the value is the
  file name with the extension replaced by \<^verbatim>\<open>.js\<close>. For a file name
  \<^verbatim>\<open>dir/stem.html\<close> the stem is the part between the last slash and the extension.
\<close>

theorem writeBundle_nodes:
  assumes "writeBundle pluginOptions referencePackageJson env outputOptions outputBundle st
      = Inr (Some (p, pkg), st')"
  shows "fst ` set (node_red_nodes pkg)
        = {path_parse_name (fileName a) | k a. (k, a) \<in> set outputBundle \<and> is_html_asset a} - {''__proto__''}
     \<and> (\<forall>pre k a post.
           outputBundle = pre @ (k, a) # post \<and> is_html_asset a
           \<and> path_parse_name (fileName a) \<noteq> ''__proto__''
           \<and> (\<forall>(k', a') \<in> set post. is_html_asset a' \<longrightarrow>
                 path_parse_name (fileName a') \<noteq> path_parse_name (fileName a))
           \<and> \<not> str_includes (butlast (fileName a)) ''.html'' \<longrightarrow>
           map_of (node_red_nodes pkg) (path_parse_name (fileName a)) = Some (spec_js_name (fileName a)))
     \<and> (\<forall>d stem. stem \<noteq> [] \<and> CHR ''/'' \<notin> set stem \<and> (d = [] \<or> last d = CHR ''/'') \<longrightarrow>
           path_parse_name (d @ stem @ ''.html'') = stem)"
proof (intro conjI allI impI)
  note nodes = writeBundle_nodes_eq [OF assms]
  show "fst ` set (node_red_nodes pkg)
        = {path_parse_name (fileName a) | k a. (k, a) \<in> set outputBundle \<and> is_html_asset a} - {''__proto__''}"
    unfolding nodes keys_add_nodes by simp
next
  fix pre k a post
  assume h: "outputBundle = pre @ (k, a) # post \<and> is_html_asset a
           \<and> path_parse_name (fileName a) \<noteq> ''__proto__''
           \<and> (\<forall>(k', a') \<in> set post. is_html_asset a' \<longrightarrow>
                 path_parse_name (fileName a') \<noteq> path_parse_name (fileName a))
           \<and> \<not> str_includes (butlast (fileName a)) ''.html''"
  note nodes = writeBundle_nodes_eq [OF assms]
  let ?key = "path_parse_name (fileName a)"
  from h have split: "outputBundle = pre @ (k, a) # post" and html: "is_html_asset a"
    and key: "?key \<noteq> ''__proto__''"
    and later: "\<forall>(k', a') \<in> set post. is_html_asset a' \<longrightarrow> path_parse_name (fileName a') \<noteq> ?key"
    and once: "\<not> str_includes (butlast (fileName a)) ''.html''"
    by simp_all
  from html have "endsWith (fileName a) ''.html''" by (simp add: is_html_asset_def)
  then have val: "replace_first ''.html'' ''.js'' (fileName a) = spec_js_name (fileName a)"
    using once by (rule replace_first_html)
  have cons: "add_nodes ((k, a) # post) acc = add_nodes post (add_nodes [(k, a)] acc)" for acc
    by simp
  have "map_of (node_red_nodes pkg) ?key
      = map_of (add_nodes post (add_nodes [(k, a)] (add_nodes pre []))) ?key"
    unfolding nodes split add_nodes_append cons ..
  also have "\<dots> = map_of (add_nodes [(k, a)] (add_nodes pre [])) ?key"
    using later by (rule map_of_add_nodes_other)
  also have "\<dots> = Some (spec_js_name (fileName a))"
    using html key val
    by (simp del: add_nodes.simps(2) add: add_nodes_step map_of_record_set)
  finally show "map_of (node_red_nodes pkg) ?key = Some (spec_js_name (fileName a))" .
next
  fix d stem :: string
  assume "stem \<noteq> [] \<and> CHR ''/'' \<notin> set stem \<and> (d = [] \<or> last d = CHR ''/'')"
  then show "path_parse_name (d @ stem @ ''.html'') = stem"
    by (intro path_parse_name_html) simp_all
qed

theorem writeBundle_nodes_witness:
  "writeBundle defaultOptions (Some reference_pkg_a) example_env
       \<lparr> options_dir = Some ''dist'', options_file = None \<rparr> example_bundle initial_state
     = Inr (Some (''/w/dist/package.json'',
                  \<lparr> name = ''pkg-a'', version = ''1.0.0'', dependencies = Some [(''x'', ''1.0.0'')],
                    devDependencies = Some [], node_red_nodes = [(''alpha'', ''nodes/alpha/alpha.js'')] \<rparr>),
            \<lparr> nodeJsFiles = [], outDir = Some ''dist'' \<rparr>)
   \<and> is_html_asset \<lparr> output_type = Asset, fileName = ''nodes/alpha/alpha.html'' \<rparr>
   \<and> \<not> str_includes (butlast ''nodes/alpha/alpha.html'') ''.html''
   \<and> path_parse_name ''nodes/alpha/alpha.html'' = ''alpha''
   \<and> spec_js_name ''nodes/alpha/alpha.html'' = ''nodes/alpha/alpha.js''
   \<and> fst ` set [(''alpha'', ''nodes/alpha/alpha.js'')] = {''alpha''}
   \<and> map_of [(''alpha'', ''nodes/alpha/alpha.js'')] ''alpha'' = Some ''nodes/alpha/alpha.js''
   \<and> path_parse_name (''nodes/alpha/'' @ ''alpha'' @ ''.html'') = ''alpha''"
proof -
  have run: "writeBundle defaultOptions (Some reference_pkg_a) example_env
       \<lparr> options_dir = Some ''dist'', options_file = None \<rparr> example_bundle initial_state
     = Inr (Some (''/w/dist/package.json'',
                  \<lparr> name = ''pkg-a'', version = ''1.0.0'', dependencies = Some [(''x'', ''1.0.0'')],
                    devDependencies = Some [], node_red_nodes = [(''alpha'', ''nodes/alpha/alpha.js'')] \<rparr>),
            \<lparr> nodeJsFiles = [], outDir = Some ''dist'' \<rparr>)"
    by (simp add: writeBundle_def defaultOptions_def example_env_def example_bundle_def
       initial_state_def endsWith_def path_parse_name_def record_set_def reference_pkg_a_def)
  have facts: "is_html_asset \<lparr> output_type = Asset, fileName = ''nodes/alpha/alpha.html'' \<rparr>
     \<and> \<not> str_includes (butlast ''nodes/alpha/alpha.html'') ''.html''
     \<and> path_parse_name ''nodes/alpha/alpha.html'' = ''alpha''
     \<and> spec_js_name ''nodes/alpha/alpha.html'' = ''nodes/alpha/alpha.js''"
    by (simp add: is_html_asset_def endsWith_def path_parse_name_def spec_js_name_def)
  have split: "example_bundle = [] @ (''nodes/alpha/alpha.html'',
        \<lparr> output_type = Asset, fileName = ''nodes/alpha/alpha.html'' \<rparr>)
      # [(''resources/alpha-Bx3k.js'', \<lparr> output_type = Chunk, fileName = ''resources/alpha-Bx3k.js'' \<rparr>),
         (''resources/style.css'', \<lparr> output_type = Asset, fileName = ''resources/style.css'' \<rparr>)]"
    by (simp add: example_bundle_def)
  have later: "\<forall>(k', a') \<in> set [(''resources/alpha-Bx3k.js'', \<lparr> output_type = Chunk, fileName = ''resources/alpha-Bx3k.js'' \<rparr>),
         (''resources/style.css'', \<lparr> output_type = Asset, fileName = ''resources/style.css'' \<rparr>)].
       is_html_asset a' \<longrightarrow> path_parse_name (fileName a') \<noteq> ''alpha''"
    by (simp add: is_html_asset_def endsWith_def)
  note inst = writeBundle_nodes [OF run, THEN conjunct2, THEN conjunct1, rule_format,
      of "[]" "''nodes/alpha/alpha.html''"
        "\<lparr> output_type = Asset, fileName = ''nodes/alpha/alpha.html'' \<rparr>"
        "[(''resources/alpha-Bx3k.js'', \<lparr> output_type = Chunk, fileName = ''resources/alpha-Bx3k.js'' \<rparr>),
         (''resources/style.css'', \<lparr> output_type = Asset, fileName = ''resources/style.css'' \<rparr>)]"]
  have "map_of [(''alpha'', ''nodes/alpha/alpha.js'')] ''alpha'' = Some ''nodes/alpha/alpha.js''"
    using inst split later facts by simp
  moreover have "fst ` set [(''alpha'', ''nodes/alpha/alpha.js'')] = {''alpha''}"
    by simp
  moreover have "path_parse_name (''nodes/alpha/'' @ ''alpha'' @ ''.html'') = ''alpha''"
    by (rule writeBundle_nodes [OF run, THEN conjunct2, THEN conjunct2, rule_format]) simp
  ultimately show ?thesis using run facts by simp
qed

text \<open>
  Where \<^verbatim>\<open>.html\<close> occurs earlier in the file name, \<^verbatim>\<open>replace\<close> changes that first
  occurrence and leaves the extension.
\<close>

lemma replace_first_not_extension:
  "is_html_asset \<lparr> output_type = Asset, fileName = ''x.html/y.html'' \<rparr>
   \<and> add_nodes [(''x.html/y.html'', \<lparr> output_type = Asset, fileName = ''x.html/y.html'' \<rparr>)] []
       = [(''y'', ''x.js/y.html'')]"
  by (simp add: is_html_asset_def endsWith_def path_parse_name_def record_set_def)

section \<open>Properties of the runtime build\<close>

declare baseMerge.simps [simp del] baseMerge_key.simps [simp del] baseMergeDeep.simps [simp del]

lemma lookup_update: "lookup (AList.update k v ps) k' = (if k = k' then v else lookup ps k')"
  by (simp add: lookup_def update_conv')

lemma lookup_undefined: "map_of ps k = None \<Longrightarrow> lookup ps k = JUndefined"
  by (simp add: lookup_def)

lemma get_assign_other:
  "k \<noteq> k' \<Longrightarrow> get_prop (assignMergeValue object (Key k) v) (Key k') = get_prop object (Key k')"
  by (cases object) (simp_all add: assignMergeValue_def lookup_update)

lemma get_assign_same:
  "is_container object \<Longrightarrow>
     get_prop (assignMergeValue object (Key k) v) (Key k) = (if v = JUndefined then get_prop object (Key k) else v)"
  by (cases object) (auto simp: assignMergeValue_def lookup_update lookup_undefined)

lemma container_assign [simp]: "is_container (assignMergeValue object key v) = is_container object"
  by (cases object; cases key) (simp_all add: assignMergeValue_def)

lemma container_init_object [simp]: "is_container (init_object v)"
  by (cases v) (simp_all add: init_object_def)

lemma container_init_array [simp]: "is_container (init_array v)"
  by (cases v) (simp_all add: init_array_def split: jv.splits)

lemma get_init_object [simp]: "get_prop (init_object v) (Key k) = get_prop v (Key k)"
  by (cases v) (simp_all add: init_object_def lookup_def)

lemma baseMerge_key_assign:
  "\<exists>v. baseMerge_key object key srcValue = assignMergeValue object key v"
  by (cases srcValue) (auto simp: baseMerge_key.simps baseMergeDeep.simps Let_def)

lemma container_baseMerge_key [simp]:
  "is_container (baseMerge_key object key srcValue) = is_container object"
proof -
  obtain v where "baseMerge_key object key srcValue = assignMergeValue object key v"
    using baseMerge_key_assign by blast
  then show ?thesis by (simp only: container_assign)
qed

lemma container_baseMerge_props [simp]:
  "is_container (baseMerge_props object ps) = is_container object"
proof (induction ps arbitrary: object)
  case Nil
  show ?case by simp
next
  case (Cons a ps)
  then show ?case by (cases a) simp
qed

lemma container_baseMerge_elems [simp]:
  "is_container (baseMerge_elems object i es) = is_container object"
  by (induction es arbitrary: object i) simp_all

lemma get_baseMerge_key_other:
  assumes "k \<noteq> k'"
  shows "get_prop (baseMerge_key object (Key k) srcValue) (Key k') = get_prop object (Key k')"
proof -
  obtain v where "baseMerge_key object (Key k) srcValue = assignMergeValue object (Key k) v"
    using baseMerge_key_assign by blast
  then have "get_prop (baseMerge_key object (Key k) srcValue) (Key k')
      = get_prop (assignMergeValue object (Key k) v) (Key k')"
    by (rule arg_cong [where f = "\<lambda>x. get_prop x (Key k')"])
  also have "\<dots> = get_prop object (Key k')"
    using assms by (rule get_assign_other)
  finally show ?thesis .
qed

lemma get_baseMerge_props_other:
  "k \<notin> fst ` set ps \<Longrightarrow> get_prop (baseMerge_props object ps) (Key k) = get_prop object (Key k)"
proof (induction ps arbitrary: object)
  case Nil
  show ?case by simp
next
  case (Cons a ps)
  obtain k1 v1 where a: "a = (k1, v1)" by (cases a)
  with Cons.prems have "k1 \<noteq> k" and "k \<notin> fst ` set ps" by auto
  then show ?case
    unfolding a by (simp add: Cons.IH get_baseMerge_key_other)
qed

lemma container_not_undefined: "is_container v \<Longrightarrow> v \<noteq> JUndefined"
  by auto

lemma baseMerge_key_object:
  "baseMerge_key object key (JObj True ps)
     = assignMergeValue object key (baseMerge_props (init_object (get_prop object key)) ps)"
  unfolding init_object_def
  by (simp add: baseMerge_key.simps baseMergeDeep.simps baseMerge.simps Let_def)

lemma baseMerge_key_array:
  "baseMerge_key object key (JArr es ps)
     = assignMergeValue object key
         (baseMerge_props (baseMerge_elems (init_array (get_prop object key)) 0 es) ps)"
  unfolding init_array_def
  by (simp add: baseMerge_key.simps baseMergeDeep.simps baseMerge.simps Let_def)

lemma get_baseMerge_key_object:
  assumes "is_container object"
  shows "get_prop (baseMerge_key object (Key k) (JObj True ps)) (Key k)
       = baseMerge_props (init_object (get_prop object (Key k))) ps"
proof -
  have "is_container (baseMerge_props (init_object (get_prop object (Key k))) ps)"
    by simp
  then have "baseMerge_props (init_object (get_prop object (Key k))) ps \<noteq> JUndefined"
    by (rule container_not_undefined)
  with assms show ?thesis
    by (simp add: baseMerge_key_object get_assign_same)
qed

lemma get_baseMerge_key_array:
  assumes "is_container object"
  shows "get_prop (baseMerge_key object (Key k) (JArr es [])) (Key k)
       = baseMerge_elems (init_array (get_prop object (Key k))) 0 es"
proof -
  have "is_container (baseMerge_elems (init_array (get_prop object (Key k))) 0 es)"
    by simp
  then have "baseMerge_elems (init_array (get_prop object (Key k))) 0 es \<noteq> JUndefined"
    by (rule container_not_undefined)
  with assms show ?thesis
    by (simp add: baseMerge_key_array get_assign_same)
qed

lemma get_baseMerge_key_value:
  "is_container object \<Longrightarrow> \<not> isObject v \<Longrightarrow>
     get_prop (baseMerge_key object (Key k) v) (Key k) = (if v = JUndefined then get_prop object (Key k) else v)"
  by (simp add: baseMerge_key.simps get_assign_same)

lemma baseMerge_key_string:
  assumes "i \<le> length es"
  shows "baseMerge_key (JArr es ps) (Idx i) (JStr f)
       = JArr (if i < length es then es[i := JStr f] else es @ [JStr f]) ps"
proof (cases "i < length es")
  case True
  show ?thesis
  proof (cases "es ! i = JStr f")
    case same: True
    then have "es[i := JStr f] = es" by (metis list_update_id)
    with True same show ?thesis
      by (simp add: baseMerge_key.simps assignMergeValue_def)
  next
    case False
    with True show ?thesis
      by (simp add: baseMerge_key.simps assignMergeValue_def)
  qed
next
  case False
  with assms have "i = length es" by simp
  then show ?thesis
    by (simp add: baseMerge_key.simps assignMergeValue_def)
qed

lemma baseMerge_elems_strings:
  "i \<le> length es \<Longrightarrow>
     baseMerge_elems (JArr es ps) i (map JStr fs)
       = JArr (take i es @ map JStr fs @ drop (i + length fs) es) ps"
proof (induction fs arbitrary: i es)
  case Nil
  then show ?case by simp
next
  case (Cons f fs)
  let ?es = "if i < length es then es[i := JStr f] else es @ [JStr f]"
  have len: "Suc i \<le> length ?es" using Cons.prems by auto
  have t: "take (Suc i) ?es = take i es @ [JStr f]"
    using Cons.prems by (auto simp: take_Suc_conv_app_nth)
  have d: "drop (Suc i + length fs) ?es = drop (i + length (f # fs)) es"
    using Cons.prems by auto
  have "baseMerge_elems (JArr es ps) i (map JStr (f # fs))
      = baseMerge_elems (JArr ?es ps) (Suc i) (map JStr fs)"
    using Cons.prems by (simp only: list.map baseMerge_elems.simps baseMerge_key_string)
  also have "\<dots> = JArr (take (Suc i) ?es @ map JStr fs @ drop (Suc i + length fs) ?es) ps"
    using len by (rule Cons.IH)
  also have "\<dots> = JArr (take i es @ map JStr (f # fs) @ drop (i + length (f # fs)) es) ps"
    unfolding t d by simp
  finally show ?case .
qed

subsection \<open>The merged configuration, path by path\<close>

lemma init_array_JArr: "\<exists>es ps. init_array v = JArr es ps"
  by (cases v) (auto simp: init_array_def split: jv.splits)

lemma init_array_plain: "\<not> isArrayLikeObject v \<Longrightarrow> init_array v = JArr [] []"
  by (cases v) (auto simp: init_array_def)

lemma closeBundle_Some:
  assumes "closeBundle pluginOptions env st = Some merged"
  shows "merged = baseMerge (user_config pluginOptions) (pluginViteConfig pluginOptions env st)"
proof -
  from assms have "merged = lodash_merge
                   (if typeof_object (buildNodeJsFiles pluginOptions)
                    then buildNodeJsFiles pluginOptions else JObj True [])
                   (pluginViteConfig pluginOptions env st)"
    by (simp add: closeBundle_def split: if_splits)
  moreover have "truthy (pluginViteConfig pluginOptions env st)"
    by (simp add: pluginViteConfig_def)
  moreover have "(case (if typeof_object (buildNodeJsFiles pluginOptions)
                    then buildNodeJsFiles pluginOptions else JObj True []) of
                   JUndefined \<Rightarrow> JObj True [] | JNull \<Rightarrow> JObj True [] | _ \<Rightarrow>
                   (if typeof_object (buildNodeJsFiles pluginOptions)
                    then buildNodeJsFiles pluginOptions else JObj True []))
      = user_config pluginOptions"
    by (cases "buildNodeJsFiles pluginOptions") (simp_all add: user_config_def)
  ultimately show ?thesis
    by (simp add: lodash_merge_def Let_def)
qed

lemma container_user_config [simp]: "is_container (user_config pluginOptions)"
  by (cases "buildNodeJsFiles pluginOptions") (simp_all add: user_config_def)

lemmas merge_simps =
  baseMerge.simps pluginViteConfig_def get_baseMerge_key_other get_baseMerge_key_object
  get_baseMerge_key_array get_baseMerge_key_value get_baseMerge_props_other

lemma merged_ssr:
  "is_container u \<Longrightarrow>
     get_prop (baseMerge u (pluginViteConfig pluginOptions env st)) (Key ''ssr'')
       = baseMerge_props (init_object (get_prop u (Key ''ssr''))) [(''target'', JStr ''node'')]"
  by (simp add: merge_simps)

lemma merged_build:
  "is_container u \<Longrightarrow>
     get_prop (baseMerge u (pluginViteConfig pluginOptions env st)) (Key ''build'')
       = baseMerge_props (init_object (get_prop u (Key ''build'')))
           [(''emptyOutDir'', JBool False),
            (''ssr'', JBool True),
            (''outDir'', case outDir st of Some d \<Rightarrow> JStr d | None \<Rightarrow> JUndefined),
            (''rollupOptions'', JObj True
               [(''input'', JArr (map JStr (nodeJsFiles st)) []),
                (''output'', JObj True
                   [(''format'', JStr ''cjs''),
                    (''preserveModules'', JBool True),
                    (''preserveModulesRoot'',
                       JStr (path_resolve env [path_join env [nodesDirectory pluginOptions, ''..'']]))])])]"
  by (simp add: merge_simps)

lemma merged_rollupOptions:
  "is_container u \<Longrightarrow>
     get_path (baseMerge u (pluginViteConfig pluginOptions env st)) [''build'', ''rollupOptions'']
       = baseMerge_props (init_object (get_path u [''build'', ''rollupOptions'']))
               [(''input'', JArr (map JStr (nodeJsFiles st)) []),
                (''output'', JObj True
                   [(''format'', JStr ''cjs''),
                    (''preserveModules'', JBool True),
                    (''preserveModulesRoot'',
                       JStr (path_resolve env [path_join env [nodesDirectory pluginOptions, ''..'']]))])]"
  by (simp add: merged_build get_baseMerge_key_other get_baseMerge_key_object)

lemma merged_output:
  "is_container u \<Longrightarrow>
     get_path (baseMerge u (pluginViteConfig pluginOptions env st)) [''build'', ''rollupOptions'', ''output'']
       = baseMerge_props (init_object (get_path u [''build'', ''rollupOptions'', ''output'']))
                   [(''format'', JStr ''cjs''),
                    (''preserveModules'', JBool True),
                    (''preserveModulesRoot'',
                       JStr (path_resolve env [path_join env [nodesDirectory pluginOptions, ''..'']]))]"
  using merged_rollupOptions [of u pluginOptions env st]
  by (simp add: get_baseMerge_key_other get_baseMerge_key_object)

lemma merged_input:
  "is_container u \<Longrightarrow>
     get_path (baseMerge u (pluginViteConfig pluginOptions env st)) [''build'', ''rollupOptions'', ''input'']
       = baseMerge_elems (init_array (get_path u [''build'', ''rollupOptions'', ''input''])) 0
           (map JStr (nodeJsFiles st))"
  using merged_rollupOptions [of u pluginOptions env st]
  by (simp add: get_baseMerge_key_other get_baseMerge_key_array)

subsection \<open>The second build of the concrete project\<close>

lemma closeBundle_example:
  "closeBundle (defaultOptions\<lparr>buildNodeJsFiles := user_build_config\<rparr>) example_env built_state
     = Some merged_example"
  by code_simp

lemma closeBundle_default:
  "closeBundle defaultOptions example_env built_state
     = Some (JObj True
          [(''configFile'', JBool False),
           (''ssr'', JObj True [(''target'', JStr ''node'')]),
           (''build'', JObj True
             [(''emptyOutDir'', JBool False),
              (''ssr'', JBool True),
              (''outDir'', JStr ''dist''),
              (''rollupOptions'', JObj True
                [(''input'', JArr [JStr ''/w/nodes/alpha/alpha.ts'', JStr ''/w/nodes/beta/beta.js''] []),
                 (''output'', JObj True
                   [(''format'', JStr ''cjs''), (''preserveModules'', JBool True),
                    (''preserveModulesRoot'', JStr ''nodes/..'')])])])])"
  by code_simp




end
